theory Spec2Isabelle
  imports Complex_Main
begin

section \<open>The training script \<open>tools/classcification/train.py\<close>\<close>

text \<open>
  The script is one linear pipeline around a deep-learning framework. The model below keeps
  the script's own control flow (its branches, its raises, its two loops and the values it
  passes around) and records every call into the framework, the logger or the file system as
  an event of a trace. Framework calls are taken to return normally. Scalar tensors and
  Python floats are idealised as reals; a division of a tensor by the integer zero, which the
  framework answers with an infinity or a NaN, has no counterpart in the model, so statements
  about the divided value assume a nonzero divisor.
\<close>

subsection \<open>Python values and library functions\<close>

text \<open>
  Several command-line options are declared with \<open>type=str\<close> and a Boolean default, so
  their value is either a Boolean or a string; \<open>os.path.exists\<close> returns a Boolean.
\<close>

datatype pyval = PyNone | PyBool bool | PyStr string

fun truthy :: "pyval \<Rightarrow> bool" where
  "truthy PyNone = False"
| "truthy (PyBool b) = b"
| "truthy (PyStr s) = (s \<noteq> [])"

definition is_None :: "pyval \<Rightarrow> bool" where
  "is_None v = (v = PyNone)"

text \<open>\<open>if args.resume\<close>: \<open>None\<close> and the empty string are false.\<close>

fun truthy_opt :: "string option \<Rightarrow> bool" where
  "truthy_opt None = False"
| "truthy_opt (Some s) = (s \<noteq> [])"

text \<open>
  \<open>a or b\<close> on a Boolean and a string: the value is \<open>a\<close> when \<open>a\<close> is true and
  \<open>b\<close> otherwise.
\<close>

definition py_or :: "bool \<Rightarrow> string \<Rightarrow> pyval" where
  "py_or x s = (if x then PyBool True else PyStr s)"

text \<open>\<open>str.rfind\<close> for a single character: the last index, or \<open>-1\<close>.\<close>

fun rfind :: "char \<Rightarrow> string \<Rightarrow> int" where
  "rfind c [] = - 1"
| "rfind c (x # xs) =
     (let r = rfind c xs in if 0 \<le> r then r + 1 else if x = c then 0 else - 1)"

text \<open>
  \<open>os.path.splitext\<close> (POSIX): the extension starts at the last dot of the last path
  component, unless that component has only leading dots before it.
\<close>

definition splitext :: "string \<Rightarrow> string \<times> string" where
  "splitext p =
     (let sepIndex = rfind (CHR ''/'') p;
          dotIndex = rfind (CHR ''.'') p
      in if sepIndex < dotIndex \<and>
            list_ex (\<lambda>c. c \<noteq> CHR ''.'')
              (take (nat (dotIndex - (sepIndex + 1))) (drop (nat (sepIndex + 1)) p))
         then (take (nat dotIndex) p, drop (nat dotIndex) p)
         else (p, []))"

text \<open>\<open>os.path.join\<close> (POSIX) of two components.\<close>

definition path_join :: "string \<Rightarrow> string \<Rightarrow> string" where
  "path_join a b =
     (if b \<noteq> [] \<and> hd b = CHR ''/'' then b
      else if a = [] \<or> last a = CHR ''/'' then a @ b
      else a @ ''/'' @ b)"

text \<open>\<open>str\<close> and \<open>repr\<close> of an integer: its decimal digits, with a sign.\<close>

definition digit_char :: "nat \<Rightarrow> char" where
  "digit_char d = ''0123456789'' ! d"

function str_nat :: "nat \<Rightarrow> string" where
  "str_nat n = (if n < 10 then [digit_char n] else str_nat (n div 10) @ [digit_char (n mod 10)])"
  by pat_completeness auto
termination
  by (relation "measure id") auto

declare str_nat.simps [simp del]

definition str_int :: "int \<Rightarrow> string" where
  "str_int i = (if i < 0 then CHR ''-'' # str_nat (nat (- i)) else str_nat (nat i))"

subsection \<open>Configuration\<close>

text \<open>
  The constants of \<open>utils.path\<close> are not part of the sources at hand; they are parameters.
\<close>

record paths =
  CIFAR_path :: string
  PETS_path :: string
  CheckPoints :: string
  log_path :: string
  classification_train_log :: string
  tensorboard_log_path :: string

record args =
  dataset :: string
  dataset_root :: "string option"
  basenet :: string
  depth :: int
  batch_size :: int
  pretrained :: pyval
  num_workers :: int
  cuda :: pyval
  save_folder :: string
  tensorboard :: pyval
  log_folder :: string
  log_name :: string
  tensorboard_log :: string
  lr :: real
  epochs :: int
  num_classes :: int
  image_size :: int
  accumulation_steps :: int
  resume :: "string option"

text \<open>The namespace \<open>parse_args\<close> returns for an empty command line.\<close>

definition parse_args_defaults :: "paths \<Rightarrow> args" where
  "parse_args_defaults P =
     \<lparr> dataset = ''pets'',
       dataset_root = Some (PETS_path P),
       basenet = ''vgg'',
       depth = 16,
       batch_size = 64,
       pretrained = PyBool True,
       num_workers = 0,
       cuda = PyBool True,
       save_folder = CheckPoints P,
       tensorboard = PyBool False,
       log_folder = log_path P,
       log_name = classification_train_log P,
       tensorboard_log = tensorboard_log_path P,
       lr = 1 / 1000,
       epochs = 200,
       num_classes = 2,
       image_size = 64,
       accumulation_steps = 1,
       resume = None \<rparr>"

subsection \<open>The environment\<close>

text \<open>
  What the framework hands back to the script. A batch is the list of its samples, each with
  the scores the network gives it in the forward pass of that batch and its label, together
  with the value the criterion returns for the batch. The loader delivers a list of batches
  for every epoch (it shuffles, so the list depends on the epoch).
\<close>

record batch =
  samples :: "(real list \<times> int) list"
  criterion_value :: real

record env =
  cuda_available :: bool
  existing_paths :: "string list"
  dataset_len :: nat
  loader :: "nat \<Rightarrow> batch list"

definition os_path_exists :: "env \<Rightarrow> string \<Rightarrow> pyval" where
  "os_path_exists E p = PyBool (p \<in> set (existing_paths E))"

subsection \<open>Events, errors and the state of a run\<close>

text \<open>
  Events inside the epoch loop carry the loop variable \<open>epoch\<close>; events inside the batch
  loop carry \<open>epoch\<close> and the counter \<open>iteration\<close>. The line logged for every batch is
  recorded with the accuracy and the loss it prints, the prints of elapsed time without the
  time.
\<close>

datatype event =
    SetDefaultTensorType string
  | Mkdir string
  | GetLogger string string
  | SummaryWriter string
  | LoadCIFAR10 string int
  | LoadPets string int
  | MakeDataLoader int int
  | BuildVgg16 int pyval
  | ModelCuda
  | DataParallelCuda
  | DataParallel
  | Print string
  | LoadStateDict string
  | ApplyWeightsInit
  | ModelTrain
  | MakeAdamW real
  | MakeCrossEntropyLoss
  | MakeReduceLROnPlateau nat
  | PrintLen nat int
  | LoggerInfoArgs
  | EmptyCache nat
  | BatchToCuda nat nat
  | ZeroGrad nat nat
  | Forward nat nat
  | CriterionCuda nat nat
  | Criterion nat nat real
  | Backward nat nat real
  | OptimizerStep nat nat
  | Accuracy nat nat real
  | Top1Update nat nat real nat
  | LossesUpdate nat nat real nat
  | AddScalar nat nat real
  | LoggerInfo nat nat real real
  | SchedulerStep nat real
  | PrintEpochFinished nat
  | PrintSaving nat
  | TorchSave nat string
  | WriterClose
  | PrintFinished

datatype error =
    ValueError string
  | UnboundLocalError string
  | ZeroDivisionError

subsection \<open>Metrics\<close>

text \<open>
  Modelled from the spec: \<open>utils.AverageMeter\<close> is not part of the sources at hand. The
  spec calls the metrics scalar running averages held in memory; the script updates a meter
  with a value and the number of samples the value stands for. The meter keeps the weighted
  sum and the count, and its average is their quotient.
\<close>

record meter =
  val :: real
  avg :: real
  total :: real
  count :: nat

definition AverageMeter :: meter where
  "AverageMeter = \<lparr> val = 0, avg = 0, total = 0, count = 0 \<rparr>"

definition update :: "meter \<Rightarrow> real \<Rightarrow> nat \<Rightarrow> meter" where
  "update m v n =
     (let s = total m + v * real n; c = count m + n
      in \<lparr> val = v, avg = s / real c, total = s, count = c \<rparr>)"

text \<open>
  Modelled from the spec: \<open>utils.accuracy\<close> is not part of the sources at hand. The spec
  defines top-1 accuracy as the fraction of samples whose highest-scoring predicted class
  matches the true label. Among equal scores the first class counts as the highest-scoring.
\<close>

fun argmax :: "real list \<Rightarrow> nat" where
  "argmax [] = 0"
| "argmax (x # xs) = (if list_all (\<lambda>y. y \<le> x) xs then 0 else Suc (argmax xs))"

definition correct :: "real list \<times> int \<Rightarrow> bool" where
  "correct st = (int (argmax (fst st)) = snd st)"

definition accuracy :: "(real list \<times> int) list \<Rightarrow> real" where
  "accuracy ss = real (length (filter correct ss)) / real (length ss)"

record train_state =
  trace :: "event list"
  iteration :: nat
  top1 :: meter
  losses :: meter

definition emit :: "event \<Rightarrow> train_state \<Rightarrow> train_state" where
  "emit ev s = s\<lparr> trace := trace s @ [ev] \<rparr>"

subsection \<open>Module-level setup (lines 113 to 129)\<close>

definition module_setup :: "env \<Rightarrow> args \<Rightarrow> event list" where
  "module_setup E a =
     (if cuda_available E then
        (if truthy (cuda a) then [SetDefaultTensorType ''torch.cuda.FloatTensor''] else []) @
        (if \<not> truthy (cuda a)
         then [Print ''WARNING: It looks like you have a CUDA device'',
               SetDefaultTensorType ''torch.FloatTensor'']
         else [])
      else [SetDefaultTensorType ''torch.FloatTensor'']) @
     (if is_None (os_path_exists E (save_folder a)) then [Mkdir (save_folder a)] else []) @
     [GetLogger (log_folder a) (log_name a)]"

subsection \<open>\<open>train\<close>: before the loop\<close>

text \<open>
  Step 4. The two \<open>elif ... is None\<close> arms come after the inequality test, as in the
  source. With a dataset name that is neither of the two, no arm binds \<open>dataset\<close> and the
  next statement fails on the unbound local.
\<close>

definition ready_dataset :: "paths \<Rightarrow> args \<Rightarrow> error + event" where
  "ready_dataset P a =
     (if dataset a = ''CIFAR10'' then
        (if dataset_root a \<noteq> Some (CIFAR_path P)
         then Inl (ValueError ''Must specify dataset_root if specifying dataset CIFAR10.'')
         else case dataset_root a of
                None \<Rightarrow> Inl (ValueError ''Must provide --dataset_root when training on CIFAR10.'')
              | Some r \<Rightarrow> Inr (LoadCIFAR10 r (image_size a)))
      else if dataset a = ''pets'' then
        (if dataset_root a \<noteq> Some (PETS_path P)
         then Inl (ValueError ''Must specify dataset_root if specifying dataset PETS.'')
         else case dataset_root a of
                None \<Rightarrow> Inl (ValueError ''Must provide --dataset_root when training on PETS.'')
              | Some r \<Rightarrow> Inr (LoadPets r (image_size a)))
      else Inl (UnboundLocalError ''dataset''))"

text \<open>Step 5.\<close>

definition define_model :: "args \<Rightarrow> error + event" where
  "define_model a =
     (if basenet a = ''vgg'' then
        (if depth a = 16 then Inr (BuildVgg16 (num_classes a) (pretrained a))
         else Inl (ValueError ''Unsupported model depth!''))
      else Inl (ValueError ''Unsupported model type!''))"

definition wrap_model :: "env \<Rightarrow> args \<Rightarrow> event list" where
  "wrap_model E a =
     (if truthy (cuda a) then
        (if cuda_available E then [ModelCuda, DataParallelCuda] else [])
      else [DataParallel])"

text \<open>Step 6. The test of the extension is \<open>ext == '.pkl' or '.pth'\<close>.\<close>

definition loading_weights :: "args \<Rightarrow> event list" where
  "loading_weights a =
     (if truthy_opt (resume a) then
        (case resume a of
           None \<Rightarrow> []
         | Some r \<Rightarrow>
             (let ext = snd (splitext r) in
              if truthy (py_or (ext = ''.pkl'') ''.pth'')
              then [Print ''Loading weights into state dict...'',
                    LoadStateDict (path_join (save_folder a) r)]
              else [Print ''Sorry only .pth and .pkl files supported.'']))
      else if resume a = None then [Print ''Initializing weights...'', ApplyWeightsInit]
      else [])"

subsection \<open>\<open>train\<close>: the loops\<close>

text \<open>Steps 10 to 13: the body of the batch loop.\<close>

definition batch_body :: "args \<Rightarrow> nat \<Rightarrow> train_state \<Rightarrow> batch \<Rightarrow> train_state" where
  "batch_body a epoch s0 b =
     (let it = iteration s0 + 1;
          s = s0\<lparr> iteration := it \<rparr>;
          n = length (samples b);
          s = (if truthy (cuda a) then emit (BatchToCuda epoch it) s else s);
          s = emit (ZeroGrad epoch it) s;
          s = emit (Forward epoch it) s;
          s = (if truthy (cuda a) then emit (CriterionCuda epoch it) s else s);
          s = emit (Criterion epoch it (criterion_value b)) s;
          loss = criterion_value b / real_of_int (accumulation_steps a);
          s = emit (Backward epoch it loss) s;
          s = emit (OptimizerStep epoch it) s;
          acc1 = accuracy (samples b);
          s = emit (Accuracy epoch it acc1) s;
          s = emit (Top1Update epoch it acc1 n) (s\<lparr> top1 := update (top1 s) acc1 n \<rparr>);
          s = emit (LossesUpdate epoch it loss n) (s\<lparr> losses := update (losses s) loss n \<rparr>);
          s = (if truthy (tensorboard a) then emit (AddScalar epoch it loss) s else s);
          s = (if it mod 1 = 0 then emit (LoggerInfo epoch it acc1 loss) s else s)
      in s)"

text \<open>The two checkpoint paths of step 14.\<close>

definition periodic_path :: "args \<Rightarrow> nat \<Rightarrow> string" where
  "periodic_path a epoch =
     save_folder a @ ''/'' @ dataset a @ ''_'' @ basenet a @ str_int (depth a) @ ''_'' @
     str_int (int epoch) @ ''.pth''"

definition latest_path :: "args \<Rightarrow> string" where
  "latest_path a =
     save_folder a @ ''/'' @ dataset a @ ''_'' @ basenet a @ str_int (depth a) @ ''.pth''"

text \<open>The body of the epoch loop: batch loop, schedule step, checkpoints.\<close>

definition epoch_body :: "args \<Rightarrow> env \<Rightarrow> train_state \<Rightarrow> nat \<Rightarrow> train_state" where
  "epoch_body a E s0 epoch =
     (let s = emit (EmptyCache epoch) s0;
          s = foldl (batch_body a epoch) s (loader E epoch);
          s = emit (SchedulerStep epoch (avg (losses s))) s;
          s = emit (PrintEpochFinished epoch) s;
          s = (if epoch \<noteq> 0 \<and> epoch mod 5 = 0
               then emit (TorchSave epoch (periodic_path a epoch)) (emit (PrintSaving epoch) s)
               else s);
          s = emit (TorchSave epoch (latest_path a)) s
      in s)"

text \<open>
  Lines 133 to 216, everything before the epoch loop: the trace so far, and the error when
  one is raised. The floor division of line 213 fails on a batch size of zero.
\<close>

definition startup :: "paths \<Rightarrow> env \<Rightarrow> args \<Rightarrow> event list \<times> error option" where
  "startup P E a =
     (let tr0 = (if truthy (tensorboard a) then [SummaryWriter (tensorboard_log a)] else [])
      in case ready_dataset P a of
           Inl e \<Rightarrow> (tr0, Some e)
         | Inr ds \<Rightarrow>
             (let tr1 = tr0 @ [ds, MakeDataLoader (batch_size a) (num_workers a)]
              in case define_model a of
                   Inl e \<Rightarrow> (tr1, Some e)
                 | Inr m \<Rightarrow>
                     (let tr2 = tr1 @ [m] @ wrap_model E a @ loading_weights a @
                                [ModelTrain, MakeAdamW (lr a), MakeCrossEntropyLoss,
                                 MakeReduceLROnPlateau 3]
                      in if batch_size a = 0 then (tr2, Some ZeroDivisionError)
                         else (tr2 @ [PrintLen (dataset_len E)
                                        (int (dataset_len E) div batch_size a),
                                      LoggerInfoArgs], None))))"

text \<open>
  \<open>train\<close> returns the trace up to the point where it stops, and either the error it raised
  or the pair of averages it returns.
\<close>

definition train :: "paths \<Rightarrow> env \<Rightarrow> args \<Rightarrow> event list \<times> (error + real \<times> real)" where
  "train P E a =
     (case startup P E a of
        (tr, Some e) \<Rightarrow> (tr, Inl e)
      | (tr, None) \<Rightarrow>
          (let s = \<lparr> trace = tr, iteration = 0, top1 = AverageMeter, losses = AverageMeter \<rparr>;
               s = foldl (epoch_body a E) s [0..<nat (epochs a)];
               s = (if truthy (tensorboard a) then emit WriterClose s else s);
               s = emit PrintFinished s
           in (trace s, Inr (avg (top1 s), avg (losses s)))))"

section \<open>What a run is expected to do\<close>

subsection \<open>Accepted configurations and expected events\<close>

text \<open>
  The configurations that pass every check before the epoch loop: the dataset is one of the
  two, its root is the path required for it, the model is the sixteen-layer VGG, and the
  batch size is not zero.
\<close>

definition accepted :: "paths \<Rightarrow> args \<Rightarrow> bool" where
  "accepted P a =
     ((dataset a = ''CIFAR10'' \<and> dataset_root a = Some (CIFAR_path P) \<or>
       dataset a = ''pets'' \<and> dataset_root a = Some (PETS_path P)) \<and>
      basenet a = ''vgg'' \<and> depth a = 16 \<and> batch_size a \<noteq> 0)"

text \<open>The events that are emitted inside the epoch loop.\<close>

fun in_loop :: "event \<Rightarrow> bool" where
  "in_loop (EmptyCache e) = True"
| "in_loop (BatchToCuda e i) = True"
| "in_loop (ZeroGrad e i) = True"
| "in_loop (Forward e i) = True"
| "in_loop (CriterionCuda e i) = True"
| "in_loop (Criterion e i v) = True"
| "in_loop (Backward e i v) = True"
| "in_loop (OptimizerStep e i) = True"
| "in_loop (Accuracy e i v) = True"
| "in_loop (Top1Update e i v n) = True"
| "in_loop (LossesUpdate e i v n) = True"
| "in_loop (AddScalar e i v) = True"
| "in_loop (LoggerInfo e i v w) = True"
| "in_loop (SchedulerStep e v) = True"
| "in_loop (PrintEpochFinished e) = True"
| "in_loop (PrintSaving e) = True"
| "in_loop (TorchSave e p) = True"
| "in_loop _ = False"

text \<open>
  The loss after the division by \<open>accumulation_steps\<close>, the events of one batch, the
  checkpoint events of one epoch, the batches of the first \<open>n\<close> epochs in the order they
  are delivered, the meters after a list of batches, and the events of one epoch.
\<close>

definition scaled_loss :: "args \<Rightarrow> batch \<Rightarrow> real" where
  "scaled_loss a b = criterion_value b / real_of_int (accumulation_steps a)"

definition batch_events :: "args \<Rightarrow> nat \<Rightarrow> nat \<Rightarrow> batch \<Rightarrow> event list" where
  "batch_events a e i b =
     (if truthy (cuda a) then [BatchToCuda e i] else []) @
     [ZeroGrad e i, Forward e i] @
     (if truthy (cuda a) then [CriterionCuda e i] else []) @
     [Criterion e i (criterion_value b), Backward e i (scaled_loss a b), OptimizerStep e i,
      Accuracy e i (accuracy (samples b)),
      Top1Update e i (accuracy (samples b)) (length (samples b)),
      LossesUpdate e i (scaled_loss a b) (length (samples b))] @
     (if truthy (tensorboard a) then [AddScalar e i (scaled_loss a b)] else []) @
     [LoggerInfo e i (accuracy (samples b)) (scaled_loss a b)]"

definition save_events :: "args \<Rightarrow> nat \<Rightarrow> event list" where
  "save_events a e =
     (if e \<noteq> 0 \<and> e mod 5 = 0 then [PrintSaving e, TorchSave e (periodic_path a e)] else []) @
     [TorchSave e (latest_path a)]"

definition all_batches :: "env \<Rightarrow> nat \<Rightarrow> batch list" where
  "all_batches E n = concat (map (loader E) [0..<n])"

definition top1_after :: "meter \<Rightarrow> batch list \<Rightarrow> meter" where
  "top1_after m bs = foldl (\<lambda>m b. update m (accuracy (samples b)) (length (samples b))) m bs"

definition losses_after :: "args \<Rightarrow> meter \<Rightarrow> batch list \<Rightarrow> meter" where
  "losses_after a m bs = foldl (\<lambda>m b. update m (scaled_loss a b) (length (samples b))) m bs"

definition epoch_events :: "args \<Rightarrow> env \<Rightarrow> nat \<Rightarrow> event list" where
  "epoch_events a E e =
     EmptyCache e #
     concat (map (\<lambda>(i, b). batch_events a e i b)
                 (enumerate (Suc (length (all_batches E e))) (loader E e))) @
     [SchedulerStep e (avg (losses_after a AverageMeter (all_batches E (Suc e)))),
      PrintEpochFinished e] @
     save_events a e"

subsection \<open>Projections of a trace\<close>



text \<open>The checkpoints written during epoch \<open>e\<close>.\<close>

fun saved_at :: "nat \<Rightarrow> event \<Rightarrow> bool" where
  "saved_at e (TorchSave e' p) = (e' = e)"
| "saved_at e _ = False"

text \<open>
  The end of each batch (the line it logs, the last statement of the body of the batch loop)
  and the steps of the schedule.
\<close>

datatype mark = BatchDone nat | ScheduleStep nat real

fun schedule_view :: "event \<Rightarrow> mark option" where
  "schedule_view (LoggerInfo e i v w) = Some (BatchDone e)"
| "schedule_view (SchedulerStep e v) = Some (ScheduleStep e v)"
| "schedule_view _ = None"

text \<open>
  The steps of a batch the training loop is made of. Metric accumulation is the update of
  the accuracy meter followed by the update of the loss meter.
\<close>

datatype phase =
  GradZero | ForwardPass | LossComputation | BackwardPass | OptimStep
  | AccumulateTop1 | AccumulateLoss

fun phase_of :: "event \<Rightarrow> phase option" where
  "phase_of (ZeroGrad e i) = Some GradZero"
| "phase_of (Forward e i) = Some ForwardPass"
| "phase_of (Criterion e i v) = Some LossComputation"
| "phase_of (Backward e i v) = Some BackwardPass"
| "phase_of (OptimizerStep e i) = Some OptimStep"
| "phase_of (Top1Update e i v n) = Some AccumulateTop1"
| "phase_of (LossesUpdate e i v n) = Some AccumulateLoss"
| "phase_of _ = None"

text \<open>The updates of the accuracy meter: the value recorded and its weight.\<close>

fun top1_view :: "event \<Rightarrow> (real \<times> nat) option" where
  "top1_view (Top1Update e i v n) = Some (v, n)"
| "top1_view _ = None"

text \<open>What happens to the gradients, and the values handed to the backward pass.\<close>

datatype grad = Zeroed | Backpropagated | Stepped

fun grad_view :: "event \<Rightarrow> grad option" where
  "grad_view (ZeroGrad e i) = Some Zeroed"
| "grad_view (Backward e i v) = Some Backpropagated"
| "grad_view (OptimizerStep e i) = Some Stepped"
| "grad_view _ = None"

fun backward_view :: "event \<Rightarrow> real option" where
  "backward_view (Backward e i v) = Some v"
| "backward_view _ = None"

subsection \<open>A small run\<close>

text \<open>
  Two samples per batch and one batch per epoch; the first sample is classified correctly,
  the second is not, and the criterion returns \<open>3/4\<close> in epoch 0 and \<open>7/4\<close> in epoch 1.
\<close>

definition example_paths :: paths where
  "example_paths =
     \<lparr> CIFAR_path = ''data/cifar'', PETS_path = ''data/pets'', CheckPoints = ''checkpoints'',
       log_path = ''log'', classification_train_log = ''train.log'',
       tensorboard_log_path = ''runs'' \<rparr>"

definition example_batch :: batch where
  "example_batch =
     \<lparr> samples = [([1 / 10, 9 / 10], 1), ([7 / 10, 3 / 10], 1)], criterion_value = 3 / 4 \<rparr>"

definition example_env :: env where
  "example_env =
     \<lparr> cuda_available = False, existing_paths = [], dataset_len = 2,
       loader = (\<lambda>e. [example_batch\<lparr> criterion_value := 3 / 4 + real e \<rparr>]) \<rparr>"

definition example_args :: args where
  "example_args = (parse_args_defaults example_paths)\<lparr> batch_size := 2, epochs := 2 \<rparr>"

text \<open>
  The same run on a machine where the save folder, the dataset and a file \<open>weights.txt\<close>
  in the save folder exist, without CUDA and with \<open>--cuda\<close> given as false.
\<close>

definition example_env_ready :: env where
  "example_env_ready =
     example_env\<lparr> existing_paths := [''checkpoints'', ''checkpoints/weights.txt'', ''data/pets''] \<rparr>"

definition example_args_cpu :: args where
  "example_args_cpu = example_args\<lparr> cuda := PyBool False \<rparr>"

section \<open>The trace of a run\<close>

subsection \<open>Lists\<close>

lemma concat_map_Nil: "concat (map (\<lambda>x. []) xs) = []"
  by (induction xs) simp_all

lemma map_filter_append: "List.map_filter f (xs @ ys) = List.map_filter f xs @ List.map_filter f ys"
  by (simp add: List.map_filter_def)

lemma map_filter_concat: "List.map_filter f (concat xss) = concat (map (List.map_filter f) xss)"
  by (induction xss) (simp_all add: map_filter_append)

lemma map_filter_filter:
  assumes "\<And>x. \<not> Q x \<Longrightarrow> f x = None"
  shows "List.map_filter f (filter Q xs) = List.map_filter f xs"
  using assms by (induction xs) (auto split: option.splits)

lemma filter_filter_implied:
  assumes "\<And>x. R x \<Longrightarrow> Q x"
  shows "filter R (filter Q xs) = filter R xs"
  using assms by (induction xs) auto

lemma concat_map_concat:
  "concat (map (\<lambda>e. concat (map f (g e))) es) = concat (map f (concat (map g es)))"
  by (induction es) simp_all

lemma map_enumerate_snd: "map (\<lambda>x. f (snd x)) (enumerate k bs) = map f bs"
  by (induction bs arbitrary: k) simp_all

lemma map_const_enumerate: "map (\<lambda>x. c) (enumerate k bs) = map (\<lambda>b. c) bs"
  by (induction bs arbitrary: k) simp_all

lemma concat_map_single:
  "concat (map (\<lambda>e'. if e' = e then g e' else []) [0..<n]) = (if e < n then g e else [])"
  by (induction n) (auto simp add: concat_map_Nil)

subsection \<open>The batch loop\<close>

lemma trace_emit [simp]: "trace (emit ev s) = trace s @ [ev]"
  and iteration_emit [simp]: "iteration (emit ev s) = iteration s"
  and top1_emit [simp]: "top1 (emit ev s) = top1 s"
  and losses_emit [simp]: "losses (emit ev s) = losses s"
  by (simp_all add: emit_def)

lemma batch_body_trace:
  "trace (batch_body a e s b) = trace s @ batch_events a e (Suc (iteration s)) b"
  by (simp add: batch_body_def batch_events_def scaled_loss_def Let_def)

lemma batch_body_iteration: "iteration (batch_body a e s b) = Suc (iteration s)"
  by (simp add: batch_body_def Let_def)

lemma batch_body_top1:
  "top1 (batch_body a e s b) = update (top1 s) (accuracy (samples b)) (length (samples b))"
  by (simp add: batch_body_def Let_def)

lemma batch_body_losses:
  "losses (batch_body a e s b) = update (losses s) (scaled_loss a b) (length (samples b))"
  by (simp add: batch_body_def scaled_loss_def Let_def)

lemma batch_loop_iteration:
  "iteration (foldl (batch_body a e) s bs) = iteration s + length bs"
  by (induction bs arbitrary: s) (simp_all add: batch_body_iteration)

lemma batch_loop_top1: "top1 (foldl (batch_body a e) s bs) = top1_after (top1 s) bs"
  by (induction bs arbitrary: s) (simp_all add: batch_body_top1 top1_after_def)

lemma batch_loop_losses: "losses (foldl (batch_body a e) s bs) = losses_after a (losses s) bs"
  by (induction bs arbitrary: s) (simp_all add: batch_body_losses losses_after_def)

lemma batch_loop_trace:
  "trace (foldl (batch_body a e) s bs) =
     trace s @ concat (map (\<lambda>(i, b). batch_events a e i b) (enumerate (Suc (iteration s)) bs))"
  by (induction bs arbitrary: s) (simp_all add: batch_body_trace batch_body_iteration)

subsection \<open>The epoch loop\<close>

lemma epoch_body_iteration:
  "iteration (epoch_body a E s e) = iteration s + length (loader E e)"
  by (simp add: epoch_body_def Let_def batch_loop_iteration)

lemma epoch_body_top1: "top1 (epoch_body a E s e) = top1_after (top1 s) (loader E e)"
  by (simp add: epoch_body_def Let_def batch_loop_top1)

lemma epoch_body_losses: "losses (epoch_body a E s e) = losses_after a (losses s) (loader E e)"
  by (simp add: epoch_body_def Let_def batch_loop_losses)

lemma epoch_body_trace:
  "trace (epoch_body a E s e) =
     trace s @ EmptyCache e #
     concat (map (\<lambda>(i, b). batch_events a e i b) (enumerate (Suc (iteration s)) (loader E e))) @
     [SchedulerStep e (avg (losses_after a (losses s) (loader E e))), PrintEpochFinished e] @
     save_events a e"
  by (simp add: epoch_body_def Let_def batch_loop_trace batch_loop_losses save_events_def)

lemma all_batches_Suc: "all_batches E (Suc n) = all_batches E n @ loader E n"
  by (simp add: all_batches_def)

lemma top1_after_append: "top1_after m (xs @ ys) = top1_after (top1_after m xs) ys"
  by (simp add: top1_after_def)

lemma losses_after_append: "losses_after a m (xs @ ys) = losses_after a (losses_after a m xs) ys"
  by (simp add: losses_after_def)

lemma epoch_loop_iteration:
  "iteration (foldl (epoch_body a E) s [0..<n]) = iteration s + length (all_batches E n)"
  by (induction n) (simp_all add: epoch_body_iteration all_batches_def)

lemma epoch_loop_top1:
  "top1 (foldl (epoch_body a E) s [0..<n]) = top1_after (top1 s) (all_batches E n)"
  by (induction n) (simp_all add: epoch_body_top1 all_batches_Suc top1_after_append, simp add: all_batches_def top1_after_def)

lemma epoch_loop_losses:
  "losses (foldl (epoch_body a E) s [0..<n]) = losses_after a (losses s) (all_batches E n)"
  by (induction n) (simp_all add: epoch_body_losses all_batches_Suc losses_after_append, simp add: all_batches_def losses_after_def)

lemma epoch_loop_trace:
  assumes "iteration s = 0" and "losses s = AverageMeter"
  shows "trace (foldl (epoch_body a E) s [0..<n]) =
           trace s @ concat (map (epoch_events a E) [0..<n])"
proof (induction n)
  case 0
  show ?case by simp
next
  case (Suc n)
  show ?case
    using assms
    by (simp add: Suc epoch_body_trace epoch_loop_iteration epoch_loop_losses epoch_events_def
        all_batches_Suc losses_after_append)
qed

subsection \<open>The whole of \<open>train\<close>\<close>

text \<open>
  An accepted configuration passes the start-up, and only an accepted one does. Nothing
  before the loop is an event of the loop. So the events of the loop in the trace of
  \<open>train\<close> are those of the epochs, one epoch after the other, when the configuration is
  accepted, and there are none otherwise.
\<close>

lemma startup_accepted: "accepted P a \<Longrightarrow> snd (startup P E a) = None"
  by (auto simp add: accepted_def startup_def ready_dataset_def define_model_def Let_def)

lemma startup_rejected: "\<not> accepted P a \<Longrightarrow> snd (startup P E a) \<noteq> None"
  by (auto simp add: accepted_def startup_def ready_dataset_def define_model_def Let_def
      split: option.splits)

lemma startup_no_loop: "filter in_loop (fst (startup P E a)) = []"
  by (auto simp add: startup_def ready_dataset_def define_model_def wrap_model_def
      loading_weights_def Let_def split: option.splits)

lemma in_loop_batch_events: "filter in_loop (batch_events a e i b) = batch_events a e i b"
  by (simp add: batch_events_def)

lemma in_loop_epoch_events: "filter in_loop (epoch_events a E e) = epoch_events a E e"
  by (simp add: epoch_events_def save_events_def filter_concat comp_def case_prod_unfold
      in_loop_batch_events)

lemma train_accepted:
  assumes "accepted P a"
  shows "fst (train P E a) =
           fst (startup P E a) @ concat (map (epoch_events a E) [0..<nat (epochs a)]) @
           (if truthy (tensorboard a) then [WriterClose] else []) @ [PrintFinished]"
    and "snd (train P E a) =
           Inr (avg (top1_after AverageMeter (all_batches E (nat (epochs a)))),
                avg (losses_after a AverageMeter (all_batches E (nat (epochs a)))))"
proof -
  obtain tr where st: "startup P E a = (tr, None)"
    using startup_accepted [OF assms, of E] by (cases "startup P E a") simp
  show "fst (train P E a) =
           fst (startup P E a) @ concat (map (epoch_events a E) [0..<nat (epochs a)]) @
           (if truthy (tensorboard a) then [WriterClose] else []) @ [PrintFinished]"
    by (simp add: train_def st Let_def epoch_loop_trace)
  show "snd (train P E a) =
           Inr (avg (top1_after AverageMeter (all_batches E (nat (epochs a)))),
                avg (losses_after a AverageMeter (all_batches E (nat (epochs a)))))"
    by (simp add: train_def st Let_def epoch_loop_top1 epoch_loop_losses)
qed

lemma train_rejected:
  assumes "\<not> accepted P a"
  shows "fst (train P E a) = fst (startup P E a)"
    and "snd (train P E a) = Inl (the (snd (startup P E a)))"
proof -
  obtain tr e where st: "startup P E a = (tr, Some e)"
    using startup_rejected [OF assms, of E] by (cases "startup P E a") auto
  show "fst (train P E a) = fst (startup P E a)"
    by (simp add: train_def st)
  show "snd (train P E a) = Inl (the (snd (startup P E a)))"
    by (simp add: train_def st)
qed

lemma train_loop_events:
  "filter in_loop (fst (train P E a)) =
     (if accepted P a then concat (map (epoch_events a E) [0..<nat (epochs a)]) else [])"
  by (simp add: train_accepted train_rejected startup_no_loop filter_concat comp_def
      in_loop_epoch_events)

lemma train_filter:
  assumes "accepted P a" and "\<And>x. R x \<Longrightarrow> in_loop x"
  shows "filter R (fst (train P E a)) =
           concat (map (\<lambda>e. filter R (epoch_events a E e)) [0..<nat (epochs a)])"
proof -
  have "filter R (fst (train P E a)) = filter R (filter in_loop (fst (train P E a)))"
    by (rule filter_filter_implied [symmetric]) (rule assms(2))
  also have "\<dots> = filter R (concat (map (epoch_events a E) [0..<nat (epochs a)]))"
    using assms(1) by (simp only: train_loop_events if_True)
  finally show ?thesis
    by (simp add: filter_concat comp_def)
qed

lemma train_map_filter:
  assumes "accepted P a" and "\<And>x. \<not> in_loop x \<Longrightarrow> f x = None"
  shows "List.map_filter f (fst (train P E a)) =
           concat (map (\<lambda>e. List.map_filter f (epoch_events a E e)) [0..<nat (epochs a)])"
proof -
  have "List.map_filter f (fst (train P E a)) =
          List.map_filter f (filter in_loop (fst (train P E a)))"
    by (rule map_filter_filter [symmetric]) (rule assms(2))
  also have "\<dots> = List.map_filter f (concat (map (epoch_events a E) [0..<nat (epochs a)]))"
    using assms(1) by (simp only: train_loop_events if_True)
  finally show ?thesis
    by (simp add: map_filter_concat comp_def)
qed

subsection \<open>The projections of the events of an epoch\<close>




lemma epoch_events_in_loop: "ev \<in> set (epoch_events a E e) \<Longrightarrow> in_loop ev"
  using in_loop_epoch_events [of a E e] by (simp add: filter_id_conv)

lemma train_prints:
  assumes "accepted P a"
  shows "Print m \<in> set (fst (train P E a)) \<longleftrightarrow> Print m \<in> set (fst (startup P E a))"
proof -
  have "Print m \<notin> set (concat (map (epoch_events a E) [0..<nat (epochs a)]))"
    using epoch_events_in_loop [of "Print m" a E] by auto
  then show ?thesis
    by (simp add: train_accepted(1) [OF assms])
qed

lemma saved_at_in_loop: "saved_at e ev \<Longrightarrow> in_loop ev"
  by (cases ev) simp_all

lemma saved_at_batch_events: "filter (saved_at e) (batch_events a e' i b) = []"
  by (simp add: batch_events_def)

lemma saved_at_epoch_events:
  "filter (saved_at e) (epoch_events a E e') =
     (if e' = e
      then (if e' \<noteq> 0 \<and> e' mod 5 = 0 then [TorchSave e' (periodic_path a e')] else []) @
           [TorchSave e' (latest_path a)]
      else [])"
  by (simp add: epoch_events_def save_events_def filter_concat comp_def case_prod_unfold
      saved_at_batch_events concat_map_Nil)

lemma schedule_view_in_loop: "\<not> in_loop ev \<Longrightarrow> schedule_view ev = None"
  by (cases ev) simp_all

lemma schedule_view_batch_events:
  "List.map_filter schedule_view (batch_events a e i b) = [BatchDone e]"
  by (simp add: batch_events_def map_filter_append)

lemma schedule_view_epoch_events:
  "List.map_filter schedule_view (epoch_events a E e) =
     map (\<lambda>b. BatchDone e) (loader E e) @
     [ScheduleStep e (avg (losses_after a AverageMeter (all_batches E (Suc e))))]"
  by (simp add: epoch_events_def save_events_def map_filter_append map_filter_concat comp_def
      case_prod_unfold schedule_view_batch_events map_const_enumerate)

lemma phase_of_in_loop: "\<not> in_loop ev \<Longrightarrow> phase_of ev = None"
  by (cases ev) simp_all

lemma phase_of_batch_events:
  "List.map_filter phase_of (batch_events a e i b) =
     [GradZero, ForwardPass, LossComputation, BackwardPass, OptimStep,
      AccumulateTop1, AccumulateLoss]"
  by (simp add: batch_events_def map_filter_append)

lemma phase_of_epoch_events:
  "List.map_filter phase_of (epoch_events a E e) =
     concat (map (\<lambda>b. [GradZero, ForwardPass, LossComputation, BackwardPass, OptimStep,
                        AccumulateTop1, AccumulateLoss]) (loader E e))"
  by (simp add: epoch_events_def save_events_def map_filter_append map_filter_concat comp_def
      case_prod_unfold phase_of_batch_events map_const_enumerate)

lemma top1_view_in_loop: "\<not> in_loop ev \<Longrightarrow> top1_view ev = None"
  by (cases ev) simp_all

lemma top1_view_batch_events:
  "List.map_filter top1_view (batch_events a e i b) =
     [(accuracy (samples b), length (samples b))]"
  by (simp add: batch_events_def map_filter_append)

lemma top1_view_epoch_events:
  "List.map_filter top1_view (epoch_events a E e) =
     map (\<lambda>b. (accuracy (samples b), length (samples b))) (loader E e)"
  by (simp add: epoch_events_def save_events_def map_filter_append map_filter_concat comp_def
      case_prod_unfold top1_view_batch_events
      map_enumerate_snd [of "\<lambda>b. (accuracy (samples b), length (samples b))"])

lemma grad_view_in_loop: "\<not> in_loop ev \<Longrightarrow> grad_view ev = None"
  by (cases ev) simp_all

lemma backward_view_in_loop: "\<not> in_loop ev \<Longrightarrow> backward_view ev = None"
  by (cases ev) simp_all

lemma grad_view_batch_events:
  "List.map_filter grad_view (batch_events a e i b) = [Zeroed, Backpropagated, Stepped]"
  by (simp add: batch_events_def map_filter_append)

lemma backward_view_batch_events:
  "List.map_filter backward_view (batch_events a e i b) = [scaled_loss a b]"
  by (simp add: batch_events_def map_filter_append)

lemma grad_view_epoch_events:
  "List.map_filter grad_view (epoch_events a E e) =
     concat (map (\<lambda>b. [Zeroed, Backpropagated, Stepped]) (loader E e))"
  by (simp add: epoch_events_def save_events_def map_filter_append map_filter_concat comp_def
      case_prod_unfold grad_view_batch_events map_const_enumerate)

lemma backward_view_epoch_events:
  "List.map_filter backward_view (epoch_events a E e) = map (scaled_loss a) (loader E e)"
  by (simp add: epoch_events_def save_events_def map_filter_append map_filter_concat comp_def
      case_prod_unfold backward_view_batch_events
      map_enumerate_snd [of "scaled_loss a"])

lemma scaled_loss_accumulation_steps:
  "scaled_loss (a\<lparr>accumulation_steps := k\<rparr>) = (\<lambda>b. criterion_value b / real_of_int k)"
  by (rule ext) (simp add: scaled_loss_def)

lemma accepted_accumulation_steps: "accepted P (a\<lparr>accumulation_steps := k\<rparr>) = accepted P a"
  by (simp add: accepted_def)

subsection \<open>The accuracy meter\<close>

lemma total_top1_after:
  "total (top1_after m bs) =
     total m + (\<Sum>b\<leftarrow>bs. accuracy (samples b) * real (length (samples b)))"
  by (induction bs arbitrary: m) (simp_all add: top1_after_def update_def Let_def)

lemma count_top1_after:
  "count (top1_after m bs) = count m + (\<Sum>b\<leftarrow>bs. length (samples b))"
  by (induction bs arbitrary: m) (simp_all add: top1_after_def update_def Let_def)

lemma avg_top1_after:
  "avg (top1_after m bs) =
     (if bs = [] then avg m else total (top1_after m bs) / real (count (top1_after m bs)))"
proof (induction bs rule: rev_induct)
  case Nil
  show ?case by (simp add: top1_after_def)
next
  case (snoc b bs)
  show ?case by (simp add: top1_after_def update_def Let_def)
qed

lemma accuracy_times_size:
  "ss \<noteq> [] \<Longrightarrow> accuracy ss * real (length ss) = real (length (filter correct ss))"
  by (simp add: accuracy_def)

lemma weighted_sum_correct:
  assumes "\<forall>b\<in>set bs. samples b \<noteq> []"
  shows "(\<Sum>b\<leftarrow>bs. accuracy (samples b) * real (length (samples b))) =
           real (\<Sum>b\<leftarrow>bs. length (filter correct (samples b)))"
  using assms by (induction bs) (simp_all add: accuracy_times_size)

lemma avg_top1_run:
  assumes "\<forall>b\<in>set bs. samples b \<noteq> []"
  shows "avg (top1_after AverageMeter bs) =
           real (\<Sum>b\<leftarrow>bs. length (filter correct (samples b))) /
           real (\<Sum>b\<leftarrow>bs. length (samples b))"
proof (cases "bs = []")
  case True
  then show ?thesis by (simp add: top1_after_def AverageMeter_def)
next
  case False
  then show ?thesis
    by (simp add: avg_top1_after total_top1_after count_top1_after
        weighted_sum_correct [OF assms] AverageMeter_def)
qed

subsection \<open>The small run, evaluated\<close>

lemma accepted_example: "accepted example_paths example_args"
  by (simp add: accepted_def example_args_def parse_args_defaults_def example_paths_def)

lemma accepted_example_upd:
  "accepted example_paths (example_args\<lparr> epochs := n \<rparr>)"
  "accepted example_paths (example_args\<lparr> resume := r \<rparr>)"
  by (simp_all add: accepted_def example_args_def parse_args_defaults_def example_paths_def)

lemma str_int_16: "str_int 16 = ''16''"
  by (simp add: str_int_def str_nat.simps digit_char_def)

lemma latest_path_example: "latest_path (example_args\<lparr> epochs := n \<rparr>) = ''checkpoints/pets_vgg16.pth''"
  by (simp add: latest_path_def example_args_def parse_args_defaults_def example_paths_def str_int_16)

lemma periodic_path_example_5:
  "periodic_path (example_args\<lparr> epochs := n \<rparr>) 5 = ''checkpoints/pets_vgg16_5.pth''"
  by (simp add: periodic_path_def example_args_def parse_args_defaults_def example_paths_def
      str_int_16 str_int_def str_nat.simps digit_char_def)


lemma epochs_example: "nat (epochs example_args) = 2"
  by (simp add: example_args_def)

lemma all_batches_example:
  "all_batches example_env 2 =
     [example_batch\<lparr> criterion_value := 3 / 4 \<rparr>, example_batch\<lparr> criterion_value := 7 / 4 \<rparr>]"
  by (simp add: all_batches_def example_env_def upt_rec numeral_2_eq_2)

lemma accuracy_example: "accuracy (samples example_batch) = 1 / 2"
  by (simp add: accuracy_def correct_def example_batch_def)

lemma top1_example: "avg (top1_after AverageMeter (all_batches example_env 2)) = 1 / 2"
  by (simp add: all_batches_example top1_after_def update_def Let_def AverageMeter_def
      accuracy_example, simp add: example_batch_def)

lemma losses_example:
  "accumulation_steps a = 1 \<Longrightarrow>
   avg (losses_after a AverageMeter (all_batches example_env 2)) = 5 / 4"
  by (simp add: all_batches_example losses_after_def update_def Let_def AverageMeter_def
      scaled_loss_def example_batch_def)

lemma splitext_weights_txt: "snd (splitext ''weights.txt'') = ''.txt''"
  by (simp add: splitext_def Let_def)

lemma upt_2: "[0..<2] = [0, 1]"
  by (simp add: upt_rec)

lemma loader_example: "loader example_env e = [example_batch\<lparr> criterion_value := 3 / 4 + real e \<rparr>]"
  by (simp add: example_env_def)

lemma all_batches_example_1:
  "all_batches example_env (Suc 0) = [example_batch\<lparr> criterion_value := 3 / 4 \<rparr>]"
  by (simp add: all_batches_def example_env_def)

lemma losses_example_1:
  "accumulation_steps a = 1 \<Longrightarrow>
   avg (losses_after a AverageMeter (all_batches example_env (Suc 0))) = 3 / 4"
  by (simp add: all_batches_example_1 losses_after_def update_def Let_def AverageMeter_def
      scaled_loss_def example_batch_def)

lemma accumulation_steps_example: "accumulation_steps example_args = 1"
  by (simp add: example_args_def parse_args_defaults_def)

lemma losses_example_2:
  "avg (losses_after example_args AverageMeter (all_batches example_env (Suc (Suc 0)))) = 5 / 4"
  using losses_example [OF accumulation_steps_example] by (simp add: numeral_2_eq_2)

lemma fields_example:
  "save_folder example_args = ''checkpoints''"
  "dataset example_args = ''pets''"
  "basenet example_args = ''vgg''"
  "depth example_args = 16"
  by (simp_all add: example_args_def parse_args_defaults_def example_paths_def)

lemma example_saved_at:
  assumes "e < nat n"
  shows "filter (saved_at e) (fst (train example_paths example_env (example_args\<lparr> epochs := n \<rparr>))) =
           (if e \<noteq> 0 \<and> e mod 5 = 0
            then [TorchSave e (periodic_path (example_args\<lparr> epochs := n \<rparr>) e)] else []) @
           [TorchSave e ''checkpoints/pets_vgg16.pth'']"
proof -
  let ?a = "example_args\<lparr> epochs := n \<rparr>"
  have "filter (saved_at e) (fst (train example_paths example_env ?a)) =
          concat (map (\<lambda>e'. filter (saved_at e) (epoch_events ?a example_env e'))
                      [0..<nat (epochs ?a)])"
    using accepted_example_upd(1) by (rule train_filter) (rule saved_at_in_loop)
  then show ?thesis
    using assms by (simp add: saved_at_epoch_events concat_map_single latest_path_example)
qed

lemma example_saved_latest:
  assumes "e < nat n"
  shows "TorchSave e ''checkpoints/pets_vgg16.pth'' \<in>
           set (fst (train example_paths example_env (example_args\<lparr> epochs := n \<rparr>)))"
proof -
  have "TorchSave e ''checkpoints/pets_vgg16.pth'' \<in>
          set (filter (saved_at e)
                 (fst (train example_paths example_env (example_args\<lparr> epochs := n \<rparr>))))"
    by (simp add: example_saved_at [OF assms])
  then show ?thesis by simp
qed

lemma example_saved_periodic:
  "TorchSave 5 ''checkpoints/pets_vgg16_5.pth'' \<in>
     set (fst (train example_paths example_env (example_args\<lparr> epochs := 6 \<rparr>)))"
proof -
  have "TorchSave 5 ''checkpoints/pets_vgg16_5.pth'' \<in>
          set (filter (saved_at 5)
                 (fst (train example_paths example_env (example_args\<lparr> epochs := 6 \<rparr>))))"
    by (simp add: example_saved_at periodic_path_example_5)
  then show ?thesis by simp
qed

lemma accepted_example_cpu:
  "accepted example_paths (example_args_cpu\<lparr> epochs := n \<rparr>)"
  "accepted example_paths (example_args_cpu\<lparr> resume := r \<rparr>)"
  by (simp_all add: accepted_def example_args_cpu_def example_args_def parse_args_defaults_def
      example_paths_def)





lemma startup_example_cpu_resume:
  "fst (startup example_paths example_env_ready
          (example_args_cpu\<lparr> resume := Some ''weights.txt'' \<rparr>)) =
     [LoadPets ''data/pets'' 64, MakeDataLoader 2 0, BuildVgg16 2 (PyBool True), DataParallel,
      Print ''Loading weights into state dict...'', LoadStateDict ''checkpoints/weights.txt'',
      ModelTrain, MakeAdamW (1 / 1000), MakeCrossEntropyLoss, MakeReduceLROnPlateau 3,
      PrintLen 2 1, LoggerInfoArgs]"
  by (simp add: startup_def ready_dataset_def define_model_def wrap_model_def
      loading_weights_def py_or_def path_join_def Let_def example_args_cpu_def example_args_def
      parse_args_defaults_def example_paths_def example_env_ready_def example_env_def)

section \<open>The claims\<close>

subsection \<open>Configuration errors\<close>

text \<open>
  Claim C1. If the root of the chosen dataset (CIFAR10 or pets) is missing or is not the path
  required for that dataset, or the model depth is not 16, or the base model is not
  \<open>vgg\<close>, then \<open>train\<close> raises a \<open>ValueError\<close> with one of its descriptive messages, and
  nothing of the epoch loop has run: the trace holds no event of the loop.
\<close>

theorem train_rejects_bad_configuration:
  assumes "dataset a = ''CIFAR10'' \<and> dataset_root a \<noteq> Some (CIFAR_path P) \<or>
           dataset a = ''pets'' \<and> dataset_root a \<noteq> Some (PETS_path P) \<or>
           (dataset a = ''CIFAR10'' \<or> dataset a = ''pets'') \<and>
           (depth a \<noteq> 16 \<or> basenet a \<noteq> ''vgg'')"
  shows "snd (train P E a) \<in>
           {Inl (ValueError ''Must specify dataset_root if specifying dataset CIFAR10.''),
            Inl (ValueError ''Must specify dataset_root if specifying dataset PETS.''),
            Inl (ValueError ''Unsupported model depth!''),
            Inl (ValueError ''Unsupported model type!'')} \<and>
         filter in_loop (fst (train P E a)) = []"
proof
  have rej: "\<not> accepted P a"
    using assms by (auto simp add: accepted_def)
  have "the (snd (startup P E a)) \<in>
           {ValueError ''Must specify dataset_root if specifying dataset CIFAR10.'',
            ValueError ''Must specify dataset_root if specifying dataset PETS.'',
            ValueError ''Unsupported model depth!'',
            ValueError ''Unsupported model type!''}"
    using assms
    by (auto simp add: startup_def ready_dataset_def define_model_def Let_def
        split: option.splits)
  then show "snd (train P E a) \<in>
           {Inl (ValueError ''Must specify dataset_root if specifying dataset CIFAR10.''),
            Inl (ValueError ''Must specify dataset_root if specifying dataset PETS.''),
            Inl (ValueError ''Unsupported model depth!''),
            Inl (ValueError ''Unsupported model type!'')}"
    by (auto simp add: train_rejected(2) [OF rej])
  show "filter in_loop (fst (train P E a)) = []"
    using rej by (simp add: train_loop_events)
qed

theorem train_rejects_bad_configuration_witness:
  "(dataset (example_args\<lparr> depth := 19 \<rparr>) = ''CIFAR10'' \<and>
      dataset_root (example_args\<lparr> depth := 19 \<rparr>) \<noteq> Some (CIFAR_path example_paths) \<or>
    dataset (example_args\<lparr> depth := 19 \<rparr>) = ''pets'' \<and>
      dataset_root (example_args\<lparr> depth := 19 \<rparr>) \<noteq> Some (PETS_path example_paths) \<or>
    (dataset (example_args\<lparr> depth := 19 \<rparr>) = ''CIFAR10'' \<or>
     dataset (example_args\<lparr> depth := 19 \<rparr>) = ''pets'') \<and>
    (depth (example_args\<lparr> depth := 19 \<rparr>) \<noteq> 16 \<or>
     basenet (example_args\<lparr> depth := 19 \<rparr>) \<noteq> ''vgg'')) \<and>
   (snd (train example_paths example_env (example_args\<lparr> depth := 19 \<rparr>)) \<in>
           {Inl (ValueError ''Must specify dataset_root if specifying dataset CIFAR10.''),
            Inl (ValueError ''Must specify dataset_root if specifying dataset PETS.''),
            Inl (ValueError ''Unsupported model depth!''),
            Inl (ValueError ''Unsupported model type!'')} \<and>
    filter in_loop (fst (train example_paths example_env (example_args\<lparr> depth := 19 \<rparr>))) = [])"
proof -
  have h: "dataset (example_args\<lparr> depth := 19 \<rparr>) = ''CIFAR10'' \<and>
      dataset_root (example_args\<lparr> depth := 19 \<rparr>) \<noteq> Some (CIFAR_path example_paths) \<or>
    dataset (example_args\<lparr> depth := 19 \<rparr>) = ''pets'' \<and>
      dataset_root (example_args\<lparr> depth := 19 \<rparr>) \<noteq> Some (PETS_path example_paths) \<or>
    (dataset (example_args\<lparr> depth := 19 \<rparr>) = ''CIFAR10'' \<or>
     dataset (example_args\<lparr> depth := 19 \<rparr>) = ''pets'') \<and>
    (depth (example_args\<lparr> depth := 19 \<rparr>) \<noteq> 16 \<or>
     basenet (example_args\<lparr> depth := 19 \<rparr>) \<noteq> ''vgg'')"
    by (simp add: example_args_def parse_args_defaults_def)
  show ?thesis
    by (rule conjI [OF h train_rejects_bad_configuration [OF h]])
qed

text \<open>
  Claim C2 does not hold of the code. The branch that answers an unsupported extension with
  \<open>Sorry only .pth and .pkl files supported.\<close> is guarded by the test
  \<open>ext == '.pkl' or '.pth'\<close>, whose value is the non-empty string \<open>'.pth'\<close> whenever the
  extension is not \<open>.pkl\<close>, so the test never fails. With \<open>--resume weights.txt\<close> the
  extension is \<open>.txt\<close>, and still \<open>train\<close> loads the weights from that file and never
  prints the message.
\<close>

theorem unsupported_extension_is_loaded:
  "snd (splitext ''weights.txt'') = ''.txt'' \<and>
   LoadStateDict ''checkpoints/weights.txt'' \<in>
     set (fst (train example_paths example_env_ready
                 (example_args_cpu\<lparr> resume := Some ''weights.txt'' \<rparr>))) \<and>
   Print ''Sorry only .pth and .pkl files supported.'' \<notin>
     set (fst (train example_paths example_env_ready
                 (example_args_cpu\<lparr> resume := Some ''weights.txt'' \<rparr>)))"
proof -
  let ?a = "example_args_cpu\<lparr> resume := Some ''weights.txt'' \<rparr>"
  have acc: "accepted example_paths ?a"
    by (rule accepted_example_cpu)
  have "LoadStateDict ''checkpoints/weights.txt'' \<in>
          set (fst (train example_paths example_env_ready ?a))"
    by (simp add: train_accepted(1) [OF acc] startup_example_cpu_resume)
  moreover have "Print ''Sorry only .pth and .pkl files supported.'' \<notin>
          set (fst (train example_paths example_env_ready ?a))"
    by (simp add: train_prints [OF acc] startup_example_cpu_resume)
  ultimately show ?thesis
    by (simp add: splitext_weights_txt)
qed

subsection \<open>Checkpoints\<close>

text \<open>
  Claim C3, as stated, fails. The file written at the end of epoch 0 and the file written at
  the end of epoch 1 have the same name, so the name does not encode the epoch.
\<close>

theorem end_of_epoch_filename_repeats:
  "TorchSave 0 ''checkpoints/pets_vgg16.pth'' \<in>
     set (fst (train example_paths example_env (example_args\<lparr> epochs := 2 \<rparr>))) \<and>
   TorchSave 1 ''checkpoints/pets_vgg16.pth'' \<in>
     set (fst (train example_paths example_env (example_args\<lparr> epochs := 2 \<rparr>)))"
  by (simp add: example_saved_latest)

text \<open>
  Claim C3, amended. Every checkpoint file written by the training loop has a filename that
  encodes the dataset name, the base model name and the model depth; the files written when
  the epoch is a nonzero multiple of 5 encode the epoch number as well, the others do not.
\<close>

theorem checkpoint_filename_pattern:
  assumes "TorchSave e p \<in> set (fst (train P E a))"
  shows "p = save_folder a @ ''/'' @ dataset a @ ''_'' @ basenet a @ str_int (depth a) @
             ''.pth'' \<or>
         e \<noteq> 0 \<and> e mod 5 = 0 \<and>
         p = save_folder a @ ''/'' @ dataset a @ ''_'' @ basenet a @ str_int (depth a) @
             ''_'' @ str_int (int e) @ ''.pth''"
proof (cases "accepted P a")
  case True
  have "TorchSave e p \<in> set (filter (saved_at e) (fst (train P E a)))"
    using assms by simp
  also have "filter (saved_at e) (fst (train P E a)) =
          concat (map (\<lambda>e'. filter (saved_at e) (epoch_events a E e')) [0..<nat (epochs a)])"
    using True by (rule train_filter) (rule saved_at_in_loop)
  finally show ?thesis
    by (auto simp add: saved_at_epoch_events concat_map_single latest_path_def periodic_path_def
        split: if_splits)
next
  case False
  have "TorchSave e p \<in> set (filter in_loop (fst (train P E a)))"
    using assms by simp
  then show ?thesis
    using False by (simp add: train_loop_events)
qed

theorem checkpoint_filename_pattern_witness:
  "TorchSave 5 ''checkpoints/pets_vgg16_5.pth'' \<in>
     set (fst (train example_paths example_env (example_args\<lparr> epochs := 6 \<rparr>))) \<and>
   (''checkpoints/pets_vgg16_5.pth'' =
      save_folder (example_args\<lparr> epochs := 6 \<rparr>) @ ''/'' @
      dataset (example_args\<lparr> epochs := 6 \<rparr>) @ ''_'' @
      basenet (example_args\<lparr> epochs := 6 \<rparr>) @
      str_int (depth (example_args\<lparr> epochs := 6 \<rparr>)) @ ''.pth'' \<or>
    (5::nat) \<noteq> 0 \<and> (5::nat) mod 5 = 0 \<and>
    ''checkpoints/pets_vgg16_5.pth'' =
      save_folder (example_args\<lparr> epochs := 6 \<rparr>) @ ''/'' @
      dataset (example_args\<lparr> epochs := 6 \<rparr>) @ ''_'' @
      basenet (example_args\<lparr> epochs := 6 \<rparr>) @
      str_int (depth (example_args\<lparr> epochs := 6 \<rparr>)) @ ''_'' @ str_int (int 5) @ ''.pth'')"
  by (rule conjI [OF example_saved_periodic
        checkpoint_filename_pattern [OF example_saved_periodic]])



text \<open>
  Claim C10. The path of the checkpoint written at the end of an epoch does not depend on
  the epoch: the checkpoints of epoch \<open>e\<close> end with the one written to
  \<open>save_folder/dataset_basenet depth.pth\<close>, whatever \<open>e\<close> is, so each epoch's last
  checkpoint overwrites that of the epoch before.
\<close>

theorem end_of_epoch_path_fixed:
  assumes "accepted P a" and "e < nat (epochs a)"
  shows "filter (saved_at e) (fst (train P E a)) =
           (if e \<noteq> 0 \<and> e mod 5 = 0 then [TorchSave e (periodic_path a e)] else []) @
           [TorchSave e (save_folder a @ ''/'' @ dataset a @ ''_'' @ basenet a @
                         str_int (depth a) @ ''.pth'')]"
proof -
  have "filter (saved_at e) (fst (train P E a)) =
          concat (map (\<lambda>e'. filter (saved_at e) (epoch_events a E e')) [0..<nat (epochs a)])"
    using assms(1) by (rule train_filter) (rule saved_at_in_loop)
  then show ?thesis
    using assms(2) by (simp only: saved_at_epoch_events concat_map_single latest_path_def if_True)
qed

theorem end_of_epoch_path_fixed_witness:
  "accepted example_paths (example_args\<lparr> epochs := 6 \<rparr>) \<and>
   5 < nat (epochs (example_args\<lparr> epochs := 6 \<rparr>)) \<and>
   filter (saved_at 5)
     (fst (train example_paths example_env (example_args\<lparr> epochs := 6 \<rparr>))) =
     [TorchSave 5 ''checkpoints/pets_vgg16_5.pth'', TorchSave 5 ''checkpoints/pets_vgg16.pth'']"
proof -
  have h1: "accepted example_paths (example_args\<lparr> epochs := 6 \<rparr>)"
    by (rule accepted_example_upd)
  have h2: "5 < nat (epochs (example_args\<lparr> epochs := 6 \<rparr>))"
    by simp
  show ?thesis
    using h1 h2 end_of_epoch_path_fixed [OF h1 h2, of example_env]
    by (simp add: periodic_path_example_5 fields_example str_int_16)
qed

subsection \<open>The order of the loop\<close>

text \<open>
  Claim C5. The step of the plateau schedule is applied exactly once per epoch, after the
  last batch of that epoch and before the first batch of the next, and the metric passed to
  it is the average held by the loss meter at that point: the running average, over all
  batches since the start of the run, of the losses recorded.
\<close>

theorem scheduler_once_per_epoch:
  assumes "accepted P a"
  shows "List.map_filter schedule_view (fst (train P E a)) =
           concat (map (\<lambda>e. map (\<lambda>b. BatchDone e) (loader E e) @
                             [ScheduleStep e
                                (avg (losses_after a AverageMeter (all_batches E (Suc e))))])
                       [0..<nat (epochs a)])"
proof -
  have "List.map_filter schedule_view (fst (train P E a)) =
          concat (map (\<lambda>e. List.map_filter schedule_view (epoch_events a E e))
                      [0..<nat (epochs a)])"
    using assms by (rule train_map_filter) (rule schedule_view_in_loop)
  then show ?thesis
    by (simp only: schedule_view_epoch_events)
qed

theorem scheduler_once_per_epoch_witness:
  "accepted example_paths example_args \<and>
   List.map_filter schedule_view (fst (train example_paths example_env example_args)) =
     [BatchDone 0, ScheduleStep 0 (3 / 4), BatchDone 1, ScheduleStep 1 (5 / 4)]"
  using accepted_example scheduler_once_per_epoch [OF accepted_example, of example_env]
  by (simp add: epochs_example upt_2 loader_example
      losses_example_1 [OF accumulation_steps_example] losses_example_2)

text \<open>
  Claim C6. For every batch of every epoch the loop performs one sequence, in this order:
  gradient zeroing, forward pass, loss computation, backward pass, optimizer step, metric
  accumulation. No batch skips a step and none is performed twice for a batch.
\<close>

theorem batch_step_sequence:
  assumes "accepted P a"
  shows "List.map_filter phase_of (fst (train P E a)) =
           concat (map (\<lambda>b. [GradZero, ForwardPass, LossComputation, BackwardPass, OptimStep,
                              AccumulateTop1, AccumulateLoss])
                       (all_batches E (nat (epochs a))))"
proof -
  have "List.map_filter phase_of (fst (train P E a)) =
          concat (map (\<lambda>e. List.map_filter phase_of (epoch_events a E e))
                      [0..<nat (epochs a)])"
    using assms by (rule train_map_filter) (rule phase_of_in_loop)
  then show ?thesis
    by (simp only: phase_of_epoch_events concat_map_concat all_batches_def)
qed

theorem batch_step_sequence_witness:
  "accepted example_paths example_args \<and>
   List.map_filter phase_of (fst (train example_paths example_env example_args)) =
     [GradZero, ForwardPass, LossComputation, BackwardPass, OptimStep,
      AccumulateTop1, AccumulateLoss,
      GradZero, ForwardPass, LossComputation, BackwardPass, OptimStep,
      AccumulateTop1, AccumulateLoss]"
  using accepted_example batch_step_sequence [OF accepted_example, of example_env]
  by (simp add: epochs_example all_batches_example)

text \<open>
  Claim C8. Whatever the value of \<open>accumulation_steps\<close>, every batch zeroes the gradients,
  runs the backward pass and steps the optimizer, so gradients are never accumulated over
  several batches; \<open>accumulation_steps\<close> only divides the loss handed to the backward pass.
\<close>

theorem optimizer_step_every_batch:
  assumes "accepted P a"
  shows "List.map_filter grad_view (fst (train P E (a\<lparr>accumulation_steps := k\<rparr>))) =
           concat (map (\<lambda>b. [Zeroed, Backpropagated, Stepped])
                       (all_batches E (nat (epochs a)))) \<and>
         (k \<noteq> 0 \<longrightarrow>
          List.map_filter backward_view (fst (train P E (a\<lparr>accumulation_steps := k\<rparr>))) =
            map (\<lambda>b. criterion_value b / real_of_int k) (all_batches E (nat (epochs a))))"
proof (intro conjI impI)
  let ?a = "a\<lparr>accumulation_steps := k\<rparr>"
  have acc: "accepted P ?a"
    using assms by (simp only: accepted_accumulation_steps)
  have "List.map_filter grad_view (fst (train P E ?a)) =
          concat (map (\<lambda>e. List.map_filter grad_view (epoch_events ?a E e))
                      [0..<nat (epochs ?a)])"
    using acc by (rule train_map_filter) (rule grad_view_in_loop)
  then show "List.map_filter grad_view (fst (train P E ?a)) =
               concat (map (\<lambda>b. [Zeroed, Backpropagated, Stepped])
                           (all_batches E (nat (epochs a))))"
    by (simp add: grad_view_epoch_events concat_map_concat all_batches_def)
  have "List.map_filter backward_view (fst (train P E ?a)) =
          concat (map (\<lambda>e. List.map_filter backward_view (epoch_events ?a E e))
                      [0..<nat (epochs ?a)])"
    using acc by (rule train_map_filter) (rule backward_view_in_loop)
  then show "List.map_filter backward_view (fst (train P E ?a)) =
               map (\<lambda>b. criterion_value b / real_of_int k) (all_batches E (nat (epochs a)))"
    by (simp add: backward_view_epoch_events all_batches_def map_concat comp_def
        scaled_loss_accumulation_steps)
qed

theorem optimizer_step_every_batch_witness:
  "accepted example_paths example_args \<and> (2::int) \<noteq> 0 \<and>
   List.map_filter grad_view
     (fst (train example_paths example_env (example_args\<lparr> accumulation_steps := 2 \<rparr>))) =
     [Zeroed, Backpropagated, Stepped, Zeroed, Backpropagated, Stepped] \<and>
   List.map_filter backward_view
     (fst (train example_paths example_env (example_args\<lparr> accumulation_steps := 2 \<rparr>))) =
     [3 / 8, 7 / 8]"
proof -
  have h: "(2::int) \<noteq> 0"
    by simp
  show ?thesis
    using accepted_example h
      optimizer_step_every_batch [OF accepted_example, of example_env 2]
    by (simp add: epochs_example all_batches_example example_batch_def)
qed

subsection \<open>Metrics\<close>

text \<open>
  Claim C7. The top-1 accuracy recorded for a batch is the fraction of the batch's samples
  whose highest-scoring class is the true label, recorded with the batch size as its weight;
  and the average the accuracy meter holds, which \<open>train\<close> returns, is that fraction over
  all samples seen: the number of correctly classified samples divided by the number of
  samples.
\<close>

theorem top1_running_average:
  assumes "accepted P a"
  shows "List.map_filter top1_view (fst (train P E a)) =
           map (\<lambda>b. (accuracy (samples b), length (samples b)))
               (all_batches E (nat (epochs a))) \<and>
         ((\<forall>b\<in>set (all_batches E (nat (epochs a))). samples b \<noteq> []) \<longrightarrow>
          (\<exists>l. snd (train P E a) =
             Inr (real (\<Sum>b\<leftarrow>all_batches E (nat (epochs a)).
                          length (filter correct (samples b))) /
                  real (\<Sum>b\<leftarrow>all_batches E (nat (epochs a)). length (samples b)), l)))"
proof (intro conjI impI)
  have "List.map_filter top1_view (fst (train P E a)) =
          concat (map (\<lambda>e. List.map_filter top1_view (epoch_events a E e))
                      [0..<nat (epochs a)])"
    using assms by (rule train_map_filter) (rule top1_view_in_loop)
  then show "List.map_filter top1_view (fst (train P E a)) =
               map (\<lambda>b. (accuracy (samples b), length (samples b)))
                   (all_batches E (nat (epochs a)))"
    by (simp only: top1_view_epoch_events all_batches_def map_concat map_map comp_def)
next
  assume "\<forall>b\<in>set (all_batches E (nat (epochs a))). samples b \<noteq> []"
  then show "\<exists>l. snd (train P E a) =
             Inr (real (\<Sum>b\<leftarrow>all_batches E (nat (epochs a)).
                          length (filter correct (samples b))) /
                  real (\<Sum>b\<leftarrow>all_batches E (nat (epochs a)). length (samples b)), l)"
    by (simp add: train_accepted(2) [OF assms] avg_top1_run)
qed

theorem top1_running_average_witness:
  "accepted example_paths example_args \<and>
   list_all (\<lambda>b. samples b \<noteq> []) (all_batches example_env (nat (epochs example_args))) \<and>
   List.map_filter top1_view (fst (train example_paths example_env example_args)) =
     [(1 / 2, 2), (1 / 2, 2)] \<and>
   (\<exists>l. snd (train example_paths example_env example_args) = Inr (1 / 2, l))"
proof -
  have h: "\<forall>b\<in>set (all_batches example_env (nat (epochs example_args))). samples b \<noteq> []"
    by (simp add: epochs_example all_batches_example example_batch_def)
  show ?thesis
    using accepted_example h top1_running_average [OF accepted_example, of example_env]
    by (simp add: epochs_example all_batches_example accuracy_example,
        simp add: example_batch_def correct_def)
qed

subsection \<open>The save folder\<close>

text \<open>
  Claim C9. The script never creates the save folder: \<open>os.path.exists\<close> returns a Boolean,
  which is never \<open>None\<close>, so for every path the test of line 124 is false and the
  \<open>mkdir\<close> is never reached, whether the folder exists or not.
\<close>

theorem save_folder_never_created: "\<not> is_None (os_path_exists E p) \<and> Mkdir q \<notin> set (module_setup E a)"
  by (simp add: is_None_def os_path_exists_def module_setup_def)

end
